theory Spec2Isabelle
  imports Main
begin

section \<open>FramebufferSurface: the buffer hand-off surface\<close>

text \<open>
  A shallow embedding of \<^verbatim>\<open>services/surfaceflinger/DisplayHardware/FramebufferSurface.cpp\<close>.
  The surface owns two fields, \<^verbatim>\<open>mCurrentBufferSlot\<close> and \<^verbatim>\<open>mCurrentBuffer\<close>. Everything else
  it touches belongs to its base class \<^verbatim>\<open>ConsumerBase\<close> (the buffer pool with its slot table)
  or to the hardware composer; their code is elsewhere, so each call into them is recorded
  in a list of calls and its answer is a parameter of the model.
  The mutex of \<^verbatim>\<open>nextBuffer\<close> and the \<^verbatim>\<open>ALOGE\<close> log lines are left out: the model is one
  call at a time, and a log line changes neither a field nor a result.
\<close>

subsection \<open>Status codes and handles\<close>

text \<open>
  Modelled from the spec: the status codes \<^verbatim>\<open>NO_ERROR\<close>, \<^verbatim>\<open>INVALID_OPERATION\<close>,
  \<^verbatim>\<open>BufferQueue::NO_BUFFER_AVAILABLE\<close> and \<^verbatim>\<open>BufferQueue::STALE_BUFFER_SLOT\<close> are declared in
  headers that are not among the sources. The error taxonomy names them OK,
  UnsupportedOperation, NoBufferAvailable and StaleSlot, four different results, next to
  the errors of the pool and of the poster, which are \<open>OtherError\<close> with their code here.
\<close>

datatype status_t =
    NO_ERROR
  | NO_BUFFER_AVAILABLE
  | STALE_BUFFER_SLOT
  | INVALID_OPERATION
  | OtherError int

text \<open>
  \<^verbatim>\<open>sp<GraphicBuffer>\<close> and \<^verbatim>\<open>sp<Fence>\<close> are strong pointers that may be null: \<open>None\<close> is the
  null pointer, \<open>Some h\<close> the pointer to the object \<open>h\<close>. A fence object is made from a
  file descriptor (\<^verbatim>\<open>new Fence(fenceFd)\<close>), so it is identified by that descriptor.
\<close>

type_synonym GraphicBuffer = "nat option"
type_synonym Fence = "int option"
type_synonym Rect = "int \<times> int \<times> int \<times> int"

text \<open>
  Modelled from the spec: \<^verbatim>\<open>BufferQueue::INVALID_BUFFER_SLOT\<close> is declared in a header that
  is not among the sources. It is the spec's \<open>NoSlot\<close>, the value of the current slot when
  nothing has been posted yet; the constructor writes that value as \<^verbatim>\<open>mCurrentBufferSlot(-1)\<close>.
\<close>

definition INVALID_BUFFER_SLOT :: int where
  "INVALID_BUFFER_SLOT = - 1"

record BufferItem =
  mBuf :: int
  mFence :: Fence

record FramebufferSurface =
  mCurrentBufferSlot :: int
  mCurrentBuffer :: GraphicBuffer

text \<open>The constructor: \<^verbatim>\<open>mCurrentBufferSlot(-1), mCurrentBuffer(0)\<close>.\<close>

definition FramebufferSurface_new :: FramebufferSurface where
  "FramebufferSurface_new = \<lparr>mCurrentBufferSlot = - 1, mCurrentBuffer = None\<rparr>"

subsection \<open>The collaborators\<close>

text \<open>
  What the base class answers during one call of the surface:
  \<^item> \<open>acquireBufferLocked\<close>: the status and the item that \<^verbatim>\<open>acquireBufferLocked(&item)\<close> gives;
  \<^item> \<open>releaseBufferLocked slot\<close>: the status of \<^verbatim>\<open>releaseBufferLocked(slot, ...)\<close>;
  \<^item> \<open>addReleaseFence slot fence\<close>: the status of \<^verbatim>\<open>addReleaseFence(slot, fence)\<close>;
  \<^item> \<open>mSlots\<close>: the \<^verbatim>\<open>mGraphicBuffer\<close> of every entry of the slot table, as it is when
    line 109 reads it, that is after the pool has stored the acquired buffer.

  An answer is a value: the two fields of the surface are written by the surface's own
  code only. The comment above line 98 speaks of \<^verbatim>\<open>freeBufferLocked\<close> being called for a
  slot whose release came back stale; on that path line 108 writes the current slot
  afterwards in any case, and \<^verbatim>\<open>freeBufferLocked\<close> never writes the current buffer.
\<close>

record ConsumerBase =
  acquireBufferLocked :: "status_t \<times> BufferItem"
  releaseBufferLocked :: "int \<Rightarrow> status_t"
  addReleaseFence :: "int \<Rightarrow> Fence \<Rightarrow> status_t"
  mSlots :: "GraphicBuffer list"

text \<open>
  The calls the surface issues, in the order it issues them. \<open>NewFence fd\<close> is the
  construction \<^verbatim>\<open>new Fence(fd)\<close> of line 141, which makes a fence object and hands it the
  descriptor \<open>fd\<close>; the other calls go to the base class or to the composer.
\<close>

datatype call =
    AcquireBuffer
  | ReleaseBuffer int
  | NewFence int
  | AddReleaseFence int Fence
  | FreeBuffer int
  | FbPost int Fence GraphicBuffer

text \<open>
  \<^verbatim>\<open>mSlots[i]\<close> is a C++ array read. Inside the table it gives the entry; outside it the
  language gives the program no meaning at all, which is \<open>None\<close> here.
\<close>

definition slot_at :: "GraphicBuffer list \<Rightarrow> int \<Rightarrow> GraphicBuffer option" where
  "slot_at slots i = (if 0 \<le> i \<and> i < int (length slots) then Some (slots ! nat i) else None)"

subsection \<open>nextBuffer\<close>

text \<open>
  The two reference parameters \<^verbatim>\<open>outBuffer\<close> and \<^verbatim>\<open>outFence\<close> come in with the caller's values
  and go out in the result, changed only where the code assigns them.
\<close>

record nextBuffer_result =
  status :: status_t
  surface :: FramebufferSurface
  outBuffer :: GraphicBuffer
  outFence :: Fence
  calls :: "call list"

text \<open>Lines 108 to 112: the only place where the current slot and buffer are written.\<close>

definition set_current ::
  "ConsumerBase \<Rightarrow> BufferItem \<Rightarrow> call list \<Rightarrow> nextBuffer_result option" where
  "set_current p item cs =
     (case slot_at (mSlots p) (mBuf item) of
        None \<Rightarrow> None
      | Some b \<Rightarrow>
          Some \<lparr>status = NO_ERROR,
                surface = \<lparr>mCurrentBufferSlot = mBuf item, mCurrentBuffer = b\<rparr>,
                outBuffer = b,
                outFence = mFence item,
                calls = cs\<rparr>)"

definition nextBuffer ::
  "FramebufferSurface \<Rightarrow> ConsumerBase \<Rightarrow> GraphicBuffer \<Rightarrow> Fence \<Rightarrow> nextBuffer_result option" where
  "nextBuffer s p outBuffer0 outFence0 =
     (let err = fst (acquireBufferLocked p);
          item = snd (acquireBufferLocked p)
      in
        if err = NO_BUFFER_AVAILABLE then
          Some \<lparr>status = NO_ERROR, surface = s, outBuffer = mCurrentBuffer s,
                outFence = outFence0, calls = [AcquireBuffer]\<rparr>
        else if err \<noteq> NO_ERROR then
          Some \<lparr>status = err, surface = s, outBuffer = outBuffer0,
                outFence = outFence0, calls = [AcquireBuffer]\<rparr>
        else if mCurrentBufferSlot s \<noteq> INVALID_BUFFER_SLOT \<and> mBuf item \<noteq> mCurrentBufferSlot s then
          (let err = releaseBufferLocked p (mCurrentBufferSlot s)
           in
             if err \<noteq> NO_ERROR \<and> err \<noteq> STALE_BUFFER_SLOT then
               Some \<lparr>status = err, surface = s, outBuffer = outBuffer0, outFence = outFence0,
                     calls = [AcquireBuffer, ReleaseBuffer (mCurrentBufferSlot s)]\<rparr>
             else
               set_current p item [AcquireBuffer, ReleaseBuffer (mCurrentBufferSlot s)])
        else
          set_current p item [AcquireBuffer])"

subsection \<open>onFrameAvailable\<close>

text \<open>
  \<^verbatim>\<open>buf\<close> and \<^verbatim>\<open>acquireFence\<close> start as null pointers. The status of \<^verbatim>\<open>fbPost\<close> is only
  logged, so the composer's answer does not appear.
\<close>

record onFrameAvailable_result =
  surface_after :: FramebufferSurface
  calls_made :: "call list"

definition onFrameAvailable ::
  "FramebufferSurface \<Rightarrow> ConsumerBase \<Rightarrow> onFrameAvailable_result option" where
  "onFrameAvailable s p =
     (case nextBuffer s p None None of
        None \<Rightarrow> None
      | Some r \<Rightarrow>
          if status r \<noteq> NO_ERROR then
            Some \<lparr>surface_after = surface r, calls_made = calls r\<rparr>
          else
            Some \<lparr>surface_after = surface r,
                  calls_made = calls r @ [FbPost 0 (outFence r) (outBuffer r)]\<rparr>)"

subsection \<open>freeBufferLocked, setReleaseFenceFd, setUpdateRectangle\<close>

text \<open>
  \<^verbatim>\<open>freeBufferLocked\<close> first calls the base class, which is recorded as \<open>FreeBuffer\<close>, then
  compares the index with the current slot.
\<close>

definition freeBufferLocked :: "FramebufferSurface \<Rightarrow> int \<Rightarrow> FramebufferSurface \<times> call list" where
  "freeBufferLocked s slotIndex =
     (if slotIndex = mCurrentBufferSlot s
      then (s\<lparr>mCurrentBufferSlot := INVALID_BUFFER_SLOT\<rparr>, [FreeBuffer slotIndex])
      else (s, [FreeBuffer slotIndex]))"

text \<open>
  In \<^verbatim>\<open>setReleaseFenceFd\<close> the fence is constructed inside the guard \<^verbatim>\<open>fenceFd >= 0\<close> and
  before the test of the current slot, so it is made whether or not there is a slot to
  attach it to. The inner \<^verbatim>\<open>status_t err = addReleaseFence(...)\<close> declares a second
  variable, \<open>err_inner\<close> here, which lives until the end of the inner block. The function
  returns the outer \<^verbatim>\<open>err\<close>.
\<close>

record setReleaseFenceFd_result =
  returned :: status_t
  surface_left :: FramebufferSurface
  calls_issued :: "call list"

definition setReleaseFenceFd ::
  "FramebufferSurface \<Rightarrow> ConsumerBase \<Rightarrow> int \<Rightarrow> setReleaseFenceFd_result" where
  "setReleaseFenceFd s p fenceFd =
     (let err = NO_ERROR
      in
        if fenceFd \<ge> 0 then
          (let fence = Some fenceFd
           in
             if mCurrentBufferSlot s \<noteq> INVALID_BUFFER_SLOT then
               (let err_inner = addReleaseFence p (mCurrentBufferSlot s) fence
                in \<lparr>returned = err, surface_left = s,
                     calls_issued =
                       [NewFence fenceFd, AddReleaseFence (mCurrentBufferSlot s) fence]\<rparr>)
             else \<lparr>returned = err, surface_left = s, calls_issued = [NewFence fenceFd]\<rparr>)
        else \<lparr>returned = err, surface_left = s, calls_issued = []\<rparr>)"

definition setUpdateRectangle :: "FramebufferSurface \<Rightarrow> Rect \<Rightarrow> status_t \<times> FramebufferSurface" where
  "setUpdateRectangle s r = (INVALID_OPERATION, s)"

subsection \<open>Sequences of calls\<close>

text \<open>
  The operations a client can perform on one surface, each with the collaborators' answers
  for that call. \<^verbatim>\<open>onFrameAvailable\<close> is \<open>NextBuffer p None None\<close> followed by the post.
\<close>

datatype surface_op =
    NextBuffer ConsumerBase GraphicBuffer Fence
  | FreeBufferLocked int
  | SetReleaseFenceFd ConsumerBase int
  | SetUpdateRectangle Rect

text \<open>
  \<open>run s ops\<close> performs the operations in order, starting from the surface \<open>s\<close>, and
  gives the final surface with the results of the \<^verbatim>\<open>nextBuffer\<close> calls, oldest first.
\<close>

fun run ::
  "FramebufferSurface \<Rightarrow> surface_op list \<Rightarrow> (FramebufferSurface \<times> nextBuffer_result list) option" where
  "run s [] = Some (s, [])"
| "run s (NextBuffer p ob f # ops) =
     (case nextBuffer s p ob f of
        None \<Rightarrow> None
      | Some r \<Rightarrow>
          (case run (surface r) ops of
             None \<Rightarrow> None
           | Some (s', rs) \<Rightarrow> Some (s', r # rs)))"
| "run s (FreeBufferLocked i # ops) = run (fst (freeBufferLocked s i)) ops"
| "run s (SetReleaseFenceFd p fd # ops) = run (surface_left (setReleaseFenceFd s p fd)) ops"
| "run s (SetUpdateRectangle r # ops) = run (snd (setUpdateRectangle s r)) ops"

text \<open>
  The buffer returned by the most recent call of \<^verbatim>\<open>nextBuffer\<close> that returned \<^verbatim>\<open>NO_ERROR\<close>;
  \<open>b\<close> when there was none.
\<close>

fun last_returned :: "GraphicBuffer \<Rightarrow> nextBuffer_result list \<Rightarrow> GraphicBuffer" where
  "last_returned b [] = b"
| "last_returned b (r # rs) =
     last_returned (if status r = NO_ERROR then outBuffer r else b) rs"

subsection \<open>Concrete surfaces and pools\<close>

text \<open>
  A surface whose current slot is \<open>i\<close> with buffer \<open>b\<close>, and three pools over a table of
  three slots holding the buffers 10, 11 and 12: one where every call succeeds, one where
  every call answers \<open>e\<close>, and one where acquiring succeeds and releasing answers \<open>e\<close>.
\<close>

definition surface_at :: "int \<Rightarrow> nat \<Rightarrow> FramebufferSurface" where
  "surface_at i b = \<lparr>mCurrentBufferSlot = i, mCurrentBuffer = Some b\<rparr>"

definition pool_ok :: "int \<Rightarrow> Fence \<Rightarrow> ConsumerBase" where
  "pool_ok i f =
     \<lparr>acquireBufferLocked = (NO_ERROR, \<lparr>mBuf = i, mFence = f\<rparr>),
      releaseBufferLocked = (\<lambda>_. NO_ERROR),
      addReleaseFence = (\<lambda>_ _. NO_ERROR),
      mSlots = [Some 10, Some 11, Some 12]\<rparr>"

definition pool_failing :: "status_t \<Rightarrow> ConsumerBase" where
  "pool_failing e =
     \<lparr>acquireBufferLocked = (e, \<lparr>mBuf = - 1, mFence = None\<rparr>),
      releaseBufferLocked = (\<lambda>_. e),
      addReleaseFence = (\<lambda>_ _. e),
      mSlots = [Some 10, Some 11, Some 12]\<rparr>"

definition pool_release :: "int \<Rightarrow> Fence \<Rightarrow> status_t \<Rightarrow> ConsumerBase" where
  "pool_release i f e =
     \<lparr>acquireBufferLocked = (NO_ERROR, \<lparr>mBuf = i, mFence = f\<rparr>),
      releaseBufferLocked = (\<lambda>_. e),
      addReleaseFence = (\<lambda>_ _. NO_ERROR),
      mSlots = [Some 10, Some 11, Some 12]\<rparr>"

section \<open>Properties\<close>

subsection \<open>What every call of nextBuffer keeps\<close>

lemma nextBuffer_ok_returns_current:
  "nextBuffer s p ob f = Some r \<Longrightarrow> status r = NO_ERROR \<Longrightarrow> outBuffer r = mCurrentBuffer (surface r)"
  by (auto simp: nextBuffer_def set_current_def Let_def split: if_splits option.splits)

lemma nextBuffer_error_keeps_surface:
  "nextBuffer s p ob f = Some r \<Longrightarrow> status r \<noteq> NO_ERROR \<Longrightarrow> surface r = s"
  by (auto simp: nextBuffer_def set_current_def Let_def split: if_splits option.splits)

lemma nextBuffer_no_post:
  "nextBuffer s p ob f = Some r \<Longrightarrow> FbPost d g b \<notin> set (calls r)"
  by (auto simp: nextBuffer_def set_current_def Let_def split: if_splits option.splits)

lemma nextBuffer_defined_in_table:
  assumes "0 \<le> mBuf (snd (acquireBufferLocked p))"
    and "mBuf (snd (acquireBufferLocked p)) < int (length (mSlots p))"
  shows "\<exists>r. nextBuffer s p ob f = Some r"
  using assms by (simp add: nextBuffer_def set_current_def slot_at_def Let_def)

lemma freeBufferLocked_keeps_buffer:
  "mCurrentBuffer (fst (freeBufferLocked s i)) = mCurrentBuffer s"
  by (simp add: freeBufferLocked_def)

lemma setReleaseFenceFd_keeps_surface:
  "surface_left (setReleaseFenceFd s p fd) = s"
  by (simp add: setReleaseFenceFd_def Let_def)

text \<open>
  Along any sequence of operations the current buffer is the buffer that the last
  successful \<^verbatim>\<open>nextBuffer\<close> returned: a successful call returns the current buffer, a failed
  one leaves the surface alone, and no other operation writes \<^verbatim>\<open>mCurrentBuffer\<close>.
\<close>

lemma run_current_buffer:
  "run s ops = Some (s', rs) \<Longrightarrow> mCurrentBuffer s' = last_returned (mCurrentBuffer s) rs"
proof (induction s ops arbitrary: s' rs rule: run.induct)
  case (1 s)
  then show ?case by simp
next
  case (2 s p ob f ops)
  from "2.prems" obtain r where r: "nextBuffer s p ob f = Some r"
    by (auto split: option.splits)
  with "2.prems" obtain rs' where rs': "run (surface r) ops = Some (s', rs')" "rs = r # rs'"
    by (auto split: option.splits)
  have "mCurrentBuffer s' = last_returned (mCurrentBuffer (surface r)) rs'"
    using "2.IH" r rs'(1) by simp
  moreover have "(if status r = NO_ERROR then outBuffer r else mCurrentBuffer s)
                   = mCurrentBuffer (surface r)"
    using nextBuffer_ok_returns_current [OF r] nextBuffer_error_keeps_surface [OF r] by auto
  ultimately show ?case using rs'(2) by simp
next
  case (3 s i ops)
  then show ?case by (simp add: freeBufferLocked_keeps_buffer)
next
  case (4 s p fd ops)
  then show ?case by (simp add: setReleaseFenceFd_keeps_surface)
next
  case (5 s r ops)
  then show ?case by (simp add: setUpdateRectangle_def)
qed

subsection \<open>Acquiring the slot that is already current\<close>

text \<open>
  Claim C1. When the current slot is a valid index \<open>K\<close> and \<^verbatim>\<open>acquireBufferLocked\<close> succeeds
  with an item whose slot is \<open>K\<close> again (an index inside the slot table), \<^verbatim>\<open>nextBuffer\<close>
  returns \<^verbatim>\<open>NO_ERROR\<close>, the only call it issues is the acquire, so no slot is released, the
  current slot stays \<open>K\<close>, the current buffer is read anew from the table at \<open>K\<close>, and that
  buffer is returned together with the fence of the item.
\<close>

theorem nextBuffer_same_slot_skips_release:
  assumes "fst (acquireBufferLocked p) = NO_ERROR"
    and "mCurrentBufferSlot s = K"
    and "K \<noteq> INVALID_BUFFER_SLOT"
    and "mBuf (snd (acquireBufferLocked p)) = K"
    and "0 \<le> K" and "K < int (length (mSlots p))"
  shows "\<exists>r. nextBuffer s p ob f = Some r
           \<and> status r = NO_ERROR
           \<and> calls r = [AcquireBuffer]
           \<and> (\<forall>i. ReleaseBuffer i \<notin> set (calls r))
           \<and> mCurrentBufferSlot (surface r) = K
           \<and> mCurrentBuffer (surface r) = mSlots p ! nat K
           \<and> outBuffer r = mSlots p ! nat K
           \<and> outFence r = mFence (snd (acquireBufferLocked p))"
  using assms by (simp add: nextBuffer_def set_current_def slot_at_def Let_def)

theorem nextBuffer_same_slot_skips_release_witness:
  "\<exists>r. nextBuffer (surface_at 1 3) (pool_ok 1 (Some 8)) None None = Some r
      \<and> status r = NO_ERROR
      \<and> calls r = [AcquireBuffer]
      \<and> (\<forall>i. ReleaseBuffer i \<notin> set (calls r))
      \<and> mCurrentBufferSlot (surface r) = 1
      \<and> mCurrentBuffer (surface r) = Some 11
      \<and> outBuffer r = Some 11
      \<and> outFence r = Some 8"
  using nextBuffer_same_slot_skips_release
          [of "pool_ok 1 (Some 8)" "surface_at 1 3" 1 None None]
  by (simp add: pool_ok_def surface_at_def INVALID_BUFFER_SLOT_def)

subsection \<open>No buffer available\<close>

text \<open>
  Claim C2. Take any sequence of operations on a surface, ending in the surface \<open>s\<close>. If the
  next call of \<^verbatim>\<open>nextBuffer\<close> finds that \<^verbatim>\<open>acquireBufferLocked\<close> answers
  \<^verbatim>\<open>NO_BUFFER_AVAILABLE\<close>, the call returns \<^verbatim>\<open>NO_ERROR\<close>, the buffer it returns is the one
  returned by the most recent successful call, which is the tracked current buffer, the
  surface is left as it was, and no fence is written: \<^verbatim>\<open>outFence\<close> still holds what the
  caller put there, the null fence in the case of \<^verbatim>\<open>onFrameAvailable\<close>.
\<close>

theorem nextBuffer_no_buffer_available:
  assumes "run s0 ops = Some (s, rs)"
    and "fst (acquireBufferLocked p) = NO_BUFFER_AVAILABLE"
  shows "nextBuffer s p ob f =
           Some \<lparr>status = NO_ERROR, surface = s,
                 outBuffer = last_returned (mCurrentBuffer s0) rs,
                 outFence = f, calls = [AcquireBuffer]\<rparr>
         \<and> last_returned (mCurrentBuffer s0) rs = mCurrentBuffer s"
  using assms run_current_buffer [of s0 ops s rs]
  by (simp add: nextBuffer_def Let_def)

theorem nextBuffer_no_buffer_available_witness:
  "run FramebufferSurface_new
     [NextBuffer (pool_ok 0 (Some 4)) None None,
      NextBuffer (pool_ok 1 (Some 5)) None None,
      FreeBufferLocked 1,
      NextBuffer (pool_failing (OtherError (- 22))) None None]
   = Some (\<lparr>mCurrentBufferSlot = - 1, mCurrentBuffer = Some 11\<rparr>,
       [\<lparr>status = NO_ERROR, surface = \<lparr>mCurrentBufferSlot = 0, mCurrentBuffer = Some 10\<rparr>,
         outBuffer = Some 10, outFence = Some 4, calls = [AcquireBuffer]\<rparr>,
        \<lparr>status = NO_ERROR, surface = \<lparr>mCurrentBufferSlot = 1, mCurrentBuffer = Some 11\<rparr>,
         outBuffer = Some 11, outFence = Some 5, calls = [AcquireBuffer, ReleaseBuffer 0]\<rparr>,
        \<lparr>status = OtherError (- 22),
         surface = \<lparr>mCurrentBufferSlot = - 1, mCurrentBuffer = Some 11\<rparr>,
         outBuffer = None, outFence = None, calls = [AcquireBuffer]\<rparr>])
   \<and> nextBuffer \<lparr>mCurrentBufferSlot = - 1, mCurrentBuffer = Some 11\<rparr>
        (pool_failing NO_BUFFER_AVAILABLE) None None
       = Some \<lparr>status = NO_ERROR,
               surface = \<lparr>mCurrentBufferSlot = - 1, mCurrentBuffer = Some 11\<rparr>,
               outBuffer = Some 11, outFence = None, calls = [AcquireBuffer]\<rparr>"
proof -
  let ?ops = "[NextBuffer (pool_ok 0 (Some 4)) None None,
      NextBuffer (pool_ok 1 (Some 5)) None None,
      FreeBufferLocked 1,
      NextBuffer (pool_failing (OtherError (- 22))) None None]"
  let ?rs = "[\<lparr>status = NO_ERROR, surface = \<lparr>mCurrentBufferSlot = 0, mCurrentBuffer = Some 10\<rparr>,
         outBuffer = Some 10, outFence = Some 4, calls = [AcquireBuffer]\<rparr>,
        \<lparr>status = NO_ERROR, surface = \<lparr>mCurrentBufferSlot = 1, mCurrentBuffer = Some 11\<rparr>,
         outBuffer = Some 11, outFence = Some 5, calls = [AcquireBuffer, ReleaseBuffer 0]\<rparr>,
        \<lparr>status = OtherError (- 22),
         surface = \<lparr>mCurrentBufferSlot = - 1, mCurrentBuffer = Some 11\<rparr>,
         outBuffer = None, outFence = None, calls = [AcquireBuffer]\<rparr>]"
  have h1: "run FramebufferSurface_new ?ops
              = Some (\<lparr>mCurrentBufferSlot = - 1, mCurrentBuffer = Some 11\<rparr>, ?rs)"
    by (simp add: FramebufferSurface_new_def pool_ok_def pool_failing_def nextBuffer_def
          set_current_def slot_at_def freeBufferLocked_def INVALID_BUFFER_SLOT_def Let_def)
  have h2: "fst (acquireBufferLocked (pool_failing NO_BUFFER_AVAILABLE)) = NO_BUFFER_AVAILABLE"
    by (simp add: pool_failing_def)
  show ?thesis
    using h1 nextBuffer_no_buffer_available [OF h1 h2, of None None]
    by (simp add: FramebufferSurface_new_def)
qed

subsection \<open>Errors leave the surface as it was\<close>

text \<open>
  Claim C3. \<^verbatim>\<open>nextBuffer\<close> is atomic on error. When \<^verbatim>\<open>acquireBufferLocked\<close> fails with a status
  other than \<^verbatim>\<open>NO_BUFFER_AVAILABLE\<close>, that status is returned; when the acquire succeeds and
  releasing the previous slot answers a status other than \<^verbatim>\<open>NO_ERROR\<close> and
  \<^verbatim>\<open>STALE_BUFFER_SLOT\<close>, that status is returned. In both cases the current slot and the
  current buffer are those from before the call, and the caller's out parameters are not
  written. Conversely every call that returns an error returned one of these two statuses
  and left the surface as it was: the surface is written only after every fallible step.
\<close>

theorem nextBuffer_error_is_atomic:
  "(fst (acquireBufferLocked p) \<noteq> NO_ERROR \<and> fst (acquireBufferLocked p) \<noteq> NO_BUFFER_AVAILABLE
      \<longrightarrow> nextBuffer s p ob f =
            Some \<lparr>status = fst (acquireBufferLocked p), surface = s, outBuffer = ob,
                  outFence = f, calls = [AcquireBuffer]\<rparr>)
   \<and> (fst (acquireBufferLocked p) = NO_ERROR
        \<and> mCurrentBufferSlot s \<noteq> INVALID_BUFFER_SLOT
        \<and> mBuf (snd (acquireBufferLocked p)) \<noteq> mCurrentBufferSlot s
        \<and> releaseBufferLocked p (mCurrentBufferSlot s) \<noteq> NO_ERROR
        \<and> releaseBufferLocked p (mCurrentBufferSlot s) \<noteq> STALE_BUFFER_SLOT
      \<longrightarrow> nextBuffer s p ob f =
            Some \<lparr>status = releaseBufferLocked p (mCurrentBufferSlot s), surface = s,
                  outBuffer = ob, outFence = f,
                  calls = [AcquireBuffer, ReleaseBuffer (mCurrentBufferSlot s)]\<rparr>)
   \<and> (\<forall>r. nextBuffer s p ob f = Some r \<and> status r \<noteq> NO_ERROR
        \<longrightarrow> surface r = s
            \<and> (status r = fst (acquireBufferLocked p)
                \<or> status r = releaseBufferLocked p (mCurrentBufferSlot s)))"
  by (auto simp: nextBuffer_def set_current_def Let_def split: if_splits option.splits)

theorem nextBuffer_error_is_atomic_witness:
  "nextBuffer (surface_at 0 10) (pool_failing (OtherError (- 19))) (Some 1) (Some 2) =
     Some \<lparr>status = OtherError (- 19), surface = surface_at 0 10, outBuffer = Some 1,
           outFence = Some 2, calls = [AcquireBuffer]\<rparr>
   \<and> nextBuffer (surface_at 0 10) (pool_release 1 (Some 6) (OtherError (- 22))) (Some 1) (Some 2) =
     Some \<lparr>status = OtherError (- 22), surface = surface_at 0 10, outBuffer = Some 1,
           outFence = Some 2, calls = [AcquireBuffer, ReleaseBuffer 0]\<rparr>"
  using nextBuffer_error_is_atomic
          [of "pool_failing (OtherError (- 19))" "surface_at 0 10" "Some 1" "Some 2"]
        nextBuffer_error_is_atomic
          [of "pool_release 1 (Some 6) (OtherError (- 22))" "surface_at 0 10" "Some 1" "Some 2"]
  by (simp add: pool_failing_def pool_release_def surface_at_def INVALID_BUFFER_SLOT_def)

subsection \<open>A stale slot on release\<close>

text \<open>
  Claim C4. When the acquire succeeds with a slot \<open>K\<close> (inside the slot table) other than the
  valid current slot, and releasing the current slot answers \<^verbatim>\<open>STALE_BUFFER_SLOT\<close>, the
  call goes on as after a successful release: it returns \<^verbatim>\<open>NO_ERROR\<close>, the current slot
  becomes \<open>K\<close>, the current buffer is read from the table at \<open>K\<close>, and that buffer is
  returned together with the fence of the item.
\<close>

theorem nextBuffer_stale_release_is_success:
  assumes "fst (acquireBufferLocked p) = NO_ERROR"
    and "mCurrentBufferSlot s \<noteq> INVALID_BUFFER_SLOT"
    and "mBuf (snd (acquireBufferLocked p)) = K"
    and "K \<noteq> mCurrentBufferSlot s"
    and "releaseBufferLocked p (mCurrentBufferSlot s) = STALE_BUFFER_SLOT"
    and "0 \<le> K" and "K < int (length (mSlots p))"
  shows "nextBuffer s p ob f =
           Some \<lparr>status = NO_ERROR,
                 surface = \<lparr>mCurrentBufferSlot = K, mCurrentBuffer = mSlots p ! nat K\<rparr>,
                 outBuffer = mSlots p ! nat K,
                 outFence = mFence (snd (acquireBufferLocked p)),
                 calls = [AcquireBuffer, ReleaseBuffer (mCurrentBufferSlot s)]\<rparr>"
  using assms by (simp add: nextBuffer_def set_current_def slot_at_def Let_def)

theorem nextBuffer_stale_release_is_success_witness:
  "nextBuffer (surface_at 0 10) (pool_release 2 (Some 6) STALE_BUFFER_SLOT) None None =
     Some \<lparr>status = NO_ERROR,
           surface = \<lparr>mCurrentBufferSlot = 2, mCurrentBuffer = Some 12\<rparr>,
           outBuffer = Some 12, outFence = Some 6,
           calls = [AcquireBuffer, ReleaseBuffer 0]\<rparr>"
  using nextBuffer_stale_release_is_success
          [of "pool_release 2 (Some 6) STALE_BUFFER_SLOT" "surface_at 0 10" 2 None None]
  by (simp add: pool_release_def surface_at_def INVALID_BUFFER_SLOT_def)

subsection \<open>After the current slot was freed\<close>

text \<open>
  \<^verbatim>\<open>freeBufferLocked\<close> resets the current slot and keeps \<^verbatim>\<open>mCurrentBuffer\<close>, and the
  \<^verbatim>\<open>NO_BUFFER_AVAILABLE\<close> branch of \<^verbatim>\<open>nextBuffer\<close> hands out \<^verbatim>\<open>mCurrentBuffer\<close> without looking
  at the slot. With current slot 0 holding buffer 10, freeing slot 0 and then calling
  \<^verbatim>\<open>nextBuffer\<close> with nothing to acquire returns buffer 10, not the null pointer.
\<close>

theorem nextBuffer_after_freed_current_counterexample:
  "mCurrentBufferSlot (surface_at 0 10) = 0
   \<and> fst (freeBufferLocked (surface_at 0 10) 0)
       = \<lparr>mCurrentBufferSlot = INVALID_BUFFER_SLOT, mCurrentBuffer = Some 10\<rparr>
   \<and> nextBuffer (fst (freeBufferLocked (surface_at 0 10) 0))
        (pool_failing NO_BUFFER_AVAILABLE) None None
       = Some \<lparr>status = NO_ERROR,
               surface = \<lparr>mCurrentBufferSlot = INVALID_BUFFER_SLOT, mCurrentBuffer = Some 10\<rparr>,
               outBuffer = Some 10, outFence = None, calls = [AcquireBuffer]\<rparr>
   \<and> outBuffer \<lparr>status = NO_ERROR,
               surface = \<lparr>mCurrentBufferSlot = INVALID_BUFFER_SLOT, mCurrentBuffer = Some 10\<rparr>,
               outBuffer = Some 10, outFence = None, calls = [AcquireBuffer]\<rparr> \<noteq> None"
  by (simp add: nextBuffer_def freeBufferLocked_def surface_at_def pool_failing_def Let_def)

text \<open>
  Claim C5, amended. After \<^verbatim>\<open>freeBufferLocked\<close> was called with the current slot, the current
  slot is \<^verbatim>\<open>INVALID_BUFFER_SLOT\<close> and the surface still holds the buffer that was current. A
  following \<^verbatim>\<open>nextBuffer\<close> for which \<^verbatim>\<open>acquireBufferLocked\<close> answers \<^verbatim>\<open>NO_BUFFER_AVAILABLE\<close>
  returns \<^verbatim>\<open>NO_ERROR\<close> with that buffer, writes no fence, and leaves the current slot invalid.
\<close>

theorem nextBuffer_after_freed_current:
  assumes "fst (acquireBufferLocked p) = NO_BUFFER_AVAILABLE"
  shows "nextBuffer (fst (freeBufferLocked s (mCurrentBufferSlot s))) p ob f =
           Some \<lparr>status = NO_ERROR,
                 surface = \<lparr>mCurrentBufferSlot = INVALID_BUFFER_SLOT,
                            mCurrentBuffer = mCurrentBuffer s\<rparr>,
                 outBuffer = mCurrentBuffer s, outFence = f, calls = [AcquireBuffer]\<rparr>"
  using assms by (simp add: nextBuffer_def freeBufferLocked_def Let_def)

theorem nextBuffer_after_freed_current_witness:
  "nextBuffer (fst (freeBufferLocked (surface_at 1 11) 1))
     (pool_failing NO_BUFFER_AVAILABLE) None None =
     Some \<lparr>status = NO_ERROR,
           surface = \<lparr>mCurrentBufferSlot = - 1, mCurrentBuffer = Some 11\<rparr>,
           outBuffer = Some 11, outFence = None, calls = [AcquireBuffer]\<rparr>"
  using nextBuffer_after_freed_current
          [of "pool_failing NO_BUFFER_AVAILABLE" "surface_at 1 11" None None]
  by (simp add: pool_failing_def surface_at_def INVALID_BUFFER_SLOT_def)

subsection \<open>setReleaseFenceFd\<close>

text \<open>
  With a descriptor that is not negative, the fence is constructed, then attached to the
  current slot when there is one; when there is none the fence is still constructed and
  nothing is attached. Whatever the pool answers, the value returned is \<^verbatim>\<open>NO_ERROR\<close>.
\<close>

lemma setReleaseFenceFd_calls:
  "0 \<le> fenceFd \<Longrightarrow>
     calls_issued (setReleaseFenceFd s p fenceFd) =
       (if mCurrentBufferSlot s \<noteq> INVALID_BUFFER_SLOT
        then [NewFence fenceFd, AddReleaseFence (mCurrentBufferSlot s) (Some fenceFd)]
        else [NewFence fenceFd])"
  by (simp add: setReleaseFenceFd_def Let_def)

lemma setReleaseFenceFd_constructs_fence:
  "0 \<le> fenceFd \<Longrightarrow> NewFence fenceFd \<in> set (calls_issued (setReleaseFenceFd s p fenceFd))"
  by (simp add: setReleaseFenceFd_def Let_def)

lemma setReleaseFenceFd_no_slot_constructs_only:
  "setReleaseFenceFd FramebufferSurface_new p 3 =
     \<lparr>returned = NO_ERROR, surface_left = FramebufferSurface_new, calls_issued = [NewFence 3]\<rparr>"
  by (simp add: setReleaseFenceFd_def FramebufferSurface_new_def INVALID_BUFFER_SLOT_def Let_def)

lemma setReleaseFenceFd_returns_NO_ERROR:
  "returned (setReleaseFenceFd s p fenceFd) = NO_ERROR"
  by (simp add: setReleaseFenceFd_def Let_def)

text \<open>
  Claim C6. The claim says that an error of the pool's \<^verbatim>\<open>addReleaseFence\<close> is the value the
  call returns. The code stores that status in a second variable \<^verbatim>\<open>err\<close>, declared inside
  the inner block, and returns the outer one, which is never assigned. With current slot 0,
  descriptor 3 and a pool that answers the error \<open>-22\<close>, the fence is constructed, the
  attach is issued for slot 0 and the call returns \<^verbatim>\<open>NO_ERROR\<close>.
\<close>

theorem setReleaseFenceFd_drops_pool_error:
  "addReleaseFence (pool_failing (OtherError (- 22))) 0 (Some 3) = OtherError (- 22)
   \<and> setReleaseFenceFd (surface_at 0 10) (pool_failing (OtherError (- 22))) 3 =
       \<lparr>returned = NO_ERROR, surface_left = surface_at 0 10,
        calls_issued = [NewFence 3, AddReleaseFence 0 (Some 3)]\<rparr>"
  by (simp add: setReleaseFenceFd_def pool_failing_def surface_at_def INVALID_BUFFER_SLOT_def
        Let_def)

text \<open>
  Claim C10. With a negative descriptor \<^verbatim>\<open>setReleaseFenceFd\<close> returns \<^verbatim>\<open>NO_ERROR\<close> and does
  nothing else, whether or not there is a current slot: no fence is constructed from any
  descriptor, no attach is issued to the pool for any slot or fence, no other call is made,
  and the surface is left as it was.
\<close>

theorem setReleaseFenceFd_negative_fd:
  assumes "fenceFd < 0"
  shows "returned (setReleaseFenceFd s p fenceFd) = NO_ERROR
         \<and> (\<forall>fd. NewFence fd \<notin> set (calls_issued (setReleaseFenceFd s p fenceFd)))
         \<and> (\<forall>i g. AddReleaseFence i g \<notin> set (calls_issued (setReleaseFenceFd s p fenceFd)))
         \<and> calls_issued (setReleaseFenceFd s p fenceFd) = []
         \<and> surface_left (setReleaseFenceFd s p fenceFd) = s
         \<and> setReleaseFenceFd s p fenceFd =
             \<lparr>returned = NO_ERROR, surface_left = s, calls_issued = []\<rparr>"
  using assms by (simp add: setReleaseFenceFd_def Let_def)

theorem setReleaseFenceFd_negative_fd_witness:
  "setReleaseFenceFd (surface_at 1 11) (pool_failing (OtherError (- 22))) (- 1) =
     \<lparr>returned = NO_ERROR, surface_left = surface_at 1 11, calls_issued = []\<rparr>
   \<and> (\<forall>fd. NewFence fd \<notin>
          set (calls_issued
                (setReleaseFenceFd (surface_at 1 11) (pool_failing (OtherError (- 22))) (- 1))))
   \<and> (\<forall>i g. AddReleaseFence i g \<notin>
          set (calls_issued
                (setReleaseFenceFd (surface_at 1 11) (pool_failing (OtherError (- 22))) (- 1))))
   \<and> setReleaseFenceFd FramebufferSurface_new (pool_ok 0 None) (- 7) =
     \<lparr>returned = NO_ERROR, surface_left = FramebufferSurface_new, calls_issued = []\<rparr>
   \<and> (\<forall>fd. NewFence fd \<notin>
          set (calls_issued (setReleaseFenceFd FramebufferSurface_new (pool_ok 0 None) (- 7))))"
  using setReleaseFenceFd_negative_fd
          [of "- 1" "surface_at 1 11" "pool_failing (OtherError (- 22))"]
        setReleaseFenceFd_negative_fd [of "- 7" FramebufferSurface_new "pool_ok 0 None"]
  by simp

subsection \<open>setUpdateRectangle\<close>

text \<open>
  Claim C7. For every surface and every rectangle, \<^verbatim>\<open>setUpdateRectangle\<close> returns
  \<^verbatim>\<open>INVALID_OPERATION\<close>, which is not \<^verbatim>\<open>NO_ERROR\<close>, and the surface is left as it was.
\<close>

theorem setUpdateRectangle_always_fails:
  "fst (setUpdateRectangle s r) = INVALID_OPERATION
   \<and> fst (setUpdateRectangle s r) \<noteq> NO_ERROR
   \<and> snd (setUpdateRectangle s r) = s"
  by (simp add: setUpdateRectangle_def)

subsection \<open>onFrameAvailable\<close>

text \<open>
  Claim C8. \<^verbatim>\<open>onFrameAvailable\<close> calls \<^verbatim>\<open>nextBuffer\<close> with null out parameters. When that
  call returns \<^verbatim>\<open>NO_ERROR\<close>, the calls of \<^verbatim>\<open>nextBuffer\<close> are followed by one \<^verbatim>\<open>fbPost\<close> that
  carries the fence and the buffer \<^verbatim>\<open>nextBuffer\<close> gave. When it returns an error, nothing
  is posted: the calls made are those of \<^verbatim>\<open>nextBuffer\<close>, none of which is a post, and the
  surface is as before.
\<close>

theorem onFrameAvailable_posts_on_success_only:
  "(nextBuffer s p None None = Some r \<and> status r = NO_ERROR
      \<longrightarrow> onFrameAvailable s p =
            Some \<lparr>surface_after = surface r,
                  calls_made = calls r @ [FbPost 0 (outFence r) (outBuffer r)]\<rparr>)
   \<and> (nextBuffer s p None None = Some r \<and> status r \<noteq> NO_ERROR
      \<longrightarrow> onFrameAvailable s p = Some \<lparr>surface_after = s, calls_made = calls r\<rparr>
          \<and> (\<forall>d g b. FbPost d g b \<notin> set (calls r)))"
  using nextBuffer_no_post [of s p None None r]
        nextBuffer_error_keeps_surface [of s p None None r]
  by (auto simp: onFrameAvailable_def)

theorem onFrameAvailable_posts_on_success_only_witness:
  "onFrameAvailable (surface_at 0 10) (pool_ok 1 (Some 5)) =
     Some \<lparr>surface_after = \<lparr>mCurrentBufferSlot = 1, mCurrentBuffer = Some 11\<rparr>,
           calls_made = [AcquireBuffer, ReleaseBuffer 0, FbPost 0 (Some 5) (Some 11)]\<rparr>
   \<and> onFrameAvailable (surface_at 0 10) (pool_release 1 (Some 5) (OtherError (- 22))) =
     Some \<lparr>surface_after = surface_at 0 10, calls_made = [AcquireBuffer, ReleaseBuffer 0]\<rparr>"
proof -
  have ok: "nextBuffer (surface_at 0 10) (pool_ok 1 (Some 5)) None None =
      Some \<lparr>status = NO_ERROR, surface = \<lparr>mCurrentBufferSlot = 1, mCurrentBuffer = Some 11\<rparr>,
            outBuffer = Some 11, outFence = Some 5, calls = [AcquireBuffer, ReleaseBuffer 0]\<rparr>"
    by (simp add: nextBuffer_def set_current_def slot_at_def pool_ok_def surface_at_def
          INVALID_BUFFER_SLOT_def Let_def)
  have bad: "nextBuffer (surface_at 0 10) (pool_release 1 (Some 5) (OtherError (- 22))) None None =
      Some \<lparr>status = OtherError (- 22), surface = surface_at 0 10,
            outBuffer = None, outFence = None, calls = [AcquireBuffer, ReleaseBuffer 0]\<rparr>"
    by (simp add: nextBuffer_def pool_release_def surface_at_def INVALID_BUFFER_SLOT_def Let_def)
  show ?thesis
    using onFrameAvailable_posts_on_success_only
            [of "surface_at 0 10" "pool_ok 1 (Some 5)"
                "\<lparr>status = NO_ERROR, surface = \<lparr>mCurrentBufferSlot = 1, mCurrentBuffer = Some 11\<rparr>,
                  outBuffer = Some 11, outFence = Some 5, calls = [AcquireBuffer, ReleaseBuffer 0]\<rparr>"]
          onFrameAvailable_posts_on_success_only
            [of "surface_at 0 10" "pool_release 1 (Some 5) (OtherError (- 22))"
                "\<lparr>status = OtherError (- 22), surface = surface_at 0 10,
                  outBuffer = None, outFence = None, calls = [AcquireBuffer, ReleaseBuffer 0]\<rparr>"]
          ok bad
    by simp
qed

subsection \<open>freeBufferLocked on another slot\<close>

text \<open>
  Claim C9. \<^verbatim>\<open>freeBufferLocked\<close> with an index other than the current slot leaves the surface
  as it was: the current slot and the current buffer are the same after the call as before.
\<close>

theorem freeBufferLocked_other_slot:
  assumes "slotIndex \<noteq> mCurrentBufferSlot s"
  shows "fst (freeBufferLocked s slotIndex) = s
         \<and> mCurrentBufferSlot (fst (freeBufferLocked s slotIndex)) = mCurrentBufferSlot s
         \<and> mCurrentBuffer (fst (freeBufferLocked s slotIndex)) = mCurrentBuffer s"
  using assms by (simp add: freeBufferLocked_def)

theorem freeBufferLocked_other_slot_witness:
  "(2::int) \<noteq> mCurrentBufferSlot (surface_at 1 11)
   \<and> freeBufferLocked (surface_at 1 11) 2 = (surface_at 1 11, [FreeBuffer 2])"
  using freeBufferLocked_other_slot [of 2 "surface_at 1 11"]
  by (simp add: surface_at_def freeBufferLocked_def)

end
